theory Spec2Isabelle
  imports Main "HOL-Library.Char_ord" "HOL-Library.List_Lexorder" "HOL-Library.Product_Lexorder"
begin

section \<open>Python values and exceptions\<close>

text \<open>
  The values that flow through the client and the server: decoded JSON bodies
  (\<^verbatim>\<open>response.json()\<close>), the dictionaries the tool handlers return, and the
  \<^verbatim>\<open>datetime\<close> of the rate-limit report. Python's \<^verbatim>\<open>None\<close> is one of them, as in
  the source, where it is both JSON \<^verbatim>\<open>null\<close> and the "absent" answer of the cache.
  A float is carried by its literal text: the code never computes with payload numbers.
  A \<^verbatim>\<open>datetime\<close> is a number of microseconds.
\<close>

datatype pyval =
    PyNone
  | PyBool bool
  | PyInt int
  | PyFloat string
  | PyStr string
  | PyList "pyval list"
  | PyDict "(string \<times> pyval) list"
  | PyDatetime int

text \<open>
  Exceptions are values. \<open>HTTPStatusError\<close> carries the status code and the body text of
  the response, \<open>RequestError\<close> and \<open>ValidationError\<close> carry their \<^verbatim>\<open>str(e)\<close>,
  \<open>DexScreenerAPIError\<close> its two fields \<^verbatim>\<open>message\<close> and \<^verbatim>\<open>status_code\<close>, and
  \<open>RetryError\<close> (tenacity) the exception of the last attempt.
\<close>

datatype error =
    KeyError string
  | ValueError string
  | TypeError string
  | AttributeError string
  | JSONDecodeError string
  | HTTPStatusError int string
  | RequestError string
  | ValidationError string
  | DexScreenerAPIError string "int option"
  | RetryError error

section \<open>The client: configuration, throttler and cache\<close>

text \<open>
  \<^verbatim>\<open>DexScreenerClient\<close> of \<^verbatim>\<open>client.py\<close>. The two dictionaries \<^verbatim>\<open>_cache\<close> and
  \<^verbatim>\<open>_cache_timestamps\<close> are maps. The throttler (package asyncio_throttle) delays its
  caller until a permit is free and then records the acquisition; the model keeps the
  number of acquisitions and leaves the delay out.
\<close>

record DexScreenerClient =
  rate_limit :: int
  cache_ttl :: int
  timeout :: int
  max_retries :: int
  permits_taken :: nat
  cache :: "string \<rightharpoonup> pyval"
  cache_timestamps :: "string \<rightharpoonup> int"

definition init_client :: "int \<Rightarrow> int \<Rightarrow> int \<Rightarrow> int \<Rightarrow> DexScreenerClient" where
  "init_client rl ttl tmo retries =
     \<lparr>rate_limit = rl, cache_ttl = ttl, timeout = tmo, max_retries = retries,
      permits_taken = 0, cache = Map.empty, cache_timestamps = Map.empty\<rparr>"

definition default_client :: DexScreenerClient where
  "default_client = init_client 300 60 30 3"

text \<open>\<^verbatim>\<open>timedelta(seconds=s)\<close>, in microseconds.\<close>

definition timedelta_seconds :: "int \<Rightarrow> int" where
  "timedelta_seconds s = s * 1000000"

text \<open>
  The cache functions read the clock once (\<^verbatim>\<open>datetime.now()\<close>); the reading is the
  argument \<open>now\<close>. They return the new client beside the result, also when they raise.
\<close>

definition is_cache_valid :: "DexScreenerClient \<Rightarrow> int \<Rightarrow> string \<Rightarrow> bool" where
  "is_cache_valid c now cache_key =
     (case cache_timestamps c cache_key of
        None \<Rightarrow> False
      | Some cache_time \<Rightarrow> now - cache_time < timedelta_seconds (cache_ttl c))"

definition get_cached_data ::
  "DexScreenerClient \<Rightarrow> int \<Rightarrow> string \<Rightarrow> (error + pyval) \<times> DexScreenerClient" where
  "get_cached_data c now cache_key =
     (if is_cache_valid c now cache_key then
        (case cache c cache_key of
           None \<Rightarrow> (Inl (KeyError cache_key), c)
         | Some data \<Rightarrow> (Inr data, c))
      else if cache c cache_key \<noteq> None then
        (let c1 = c\<lparr>cache := (cache c)(cache_key := None)\<rparr> in
         if cache_timestamps c1 cache_key = None then (Inl (KeyError cache_key), c1)
         else (Inr PyNone,
               c1\<lparr>cache_timestamps := (cache_timestamps c1)(cache_key := None)\<rparr>))
      else (Inr PyNone, c))"

definition cache_data :: "DexScreenerClient \<Rightarrow> int \<Rightarrow> string \<Rightarrow> pyval \<Rightarrow> DexScreenerClient" where
  "cache_data c now cache_key data =
     c\<lparr>cache := (cache c)(cache_key \<mapsto> data),
       cache_timestamps := (cache_timestamps c)(cache_key \<mapsto> now)\<rparr>"

text \<open>A sequence of cache operations, each with the clock reading it sees.\<close>

datatype cache_op = Cache_data string pyval | Get_cached_data string

fun run_op :: "DexScreenerClient \<Rightarrow> int \<times> cache_op \<Rightarrow> DexScreenerClient" where
  "run_op c (now, Cache_data k v) = cache_data c now k v"
| "run_op c (now, Get_cached_data k) = snd (get_cached_data c now k)"

definition run_ops :: "DexScreenerClient \<Rightarrow> (int \<times> cache_op) list \<Rightarrow> DexScreenerClient" where
  "run_ops c ops = foldl run_op c ops"

section \<open>Strings\<close>

text \<open>\<^verbatim>\<open>str(n)\<close> for an integer, \<^verbatim>\<open>sep.join(xs)\<close> and \<^verbatim>\<open>s.lstrip('/')\<close>.\<close>

definition digit_char :: "nat \<Rightarrow> char" where
  "digit_char d = ''0123456789'' ! d"

function str_nat :: "nat \<Rightarrow> string" where
  "str_nat n = (if n < 10 then [digit_char n] else str_nat (n div 10) @ [digit_char (n mod 10)])"
  by pat_completeness auto
termination
  by (relation "measure id") auto

declare str_nat.simps [simp del]

definition str_int :: "int \<Rightarrow> string" where
  "str_int i = (if i < 0 then CHR ''-'' # str_nat (nat (- i)) else str_nat (nat i))"

fun join :: "string \<Rightarrow> string list \<Rightarrow> string" where
  "join sep [] = []"
| "join sep [x] = x"
| "join sep (x # y # ys) = x @ sep @ join sep (y # ys)"

definition lstrip_slash :: "string \<Rightarrow> string" where
  "lstrip_slash s = dropWhile (\<lambda>ch. ch = CHR ''/'') s"

text \<open>A name between single quotes, as Python prints it in its messages.\<close>

definition quoted :: "string \<Rightarrow> string" where
  "quoted s = [CHR 0x27] @ s @ [CHR 0x27]"

text \<open>The name Python prints for the type of a value.\<close>

fun type_name :: "pyval \<Rightarrow> string" where
  "type_name PyNone = ''NoneType''"
| "type_name (PyBool _) = ''bool''"
| "type_name (PyInt _) = ''int''"
| "type_name (PyFloat _) = ''float''"
| "type_name (PyStr _) = ''str''"
| "type_name (PyList _) = ''list''"
| "type_name (PyDict _) = ''dict''"
| "type_name (PyDatetime _) = ''datetime.datetime''"

section \<open>The provider and the clock\<close>

text \<open>
  What \<^verbatim>\<open>await self.client.get(url, params=params)\<close> can do: answer with a status
  code, a body text and the body decoded as JSON (\<open>None\<close> when the body is not JSON), or
  fail in transport (\<^verbatim>\<open>httpx.RequestError\<close>, with its \<^verbatim>\<open>str(e)\<close>).
\<close>

datatype http_outcome =
    Response int string "pyval option"
  | TransportError string

text \<open>
  The environment of the client: the wall clock in microseconds, the provider (the outcome
  of the n-th GET of the session for a URL and its parameters, with the time the call
  takes), and the number of GETs sent so far.
\<close>

record env =
  clock :: int
  provider :: "nat \<Rightarrow> string \<Rightarrow> (string \<times> string) list \<Rightarrow> int \<times> http_outcome"
  requests_sent :: nat

definition client_get :: "env \<Rightarrow> string \<Rightarrow> (string \<times> string) list \<Rightarrow> http_outcome \<times> env" where
  "client_get e url params =
     (case provider e (requests_sent e) url params of
        (elapsed, outcome) \<Rightarrow>
          (outcome, e\<lparr>clock := clock e + elapsed, requests_sent := Suc (requests_sent e)\<rparr>))"

text \<open>\<^verbatim>\<open>await asyncio.sleep(seconds)\<close>.\<close>

definition sleep :: "int \<Rightarrow> env \<Rightarrow> env" where
  "sleep seconds e = e\<lparr>clock := clock e + timedelta_seconds seconds\<rparr>"

section \<open>The request pipeline\<close>

definition BASE_URL :: string where
  "BASE_URL = ''https://api.dexscreener.com/latest/dex''"

text \<open>
  \<^verbatim>\<open>params\<close> is a dictionary of strings, given as the list of its items in insertion
  order (keys distinct); \<^verbatim>\<open>None\<close> and the empty dictionary are both the empty list,
  which the source treats alike (\<^verbatim>\<open>if params:\<close>).
\<close>

definition get_cache_key :: "string \<Rightarrow> (string \<times> string) list \<Rightarrow> string" where
  "get_cache_key endpoint params =
     (if params \<noteq> [] then
        endpoint @ ''?'' @ join ''&'' (map (\<lambda>(k, v). k @ ''='' @ v) (sort params))
      else endpoint)"

text \<open>
  \<^verbatim>\<open>response.raise_for_status()\<close> followed by \<^verbatim>\<open>response.json()\<close> (httpx): a status
  outside 200..299 raises \<^verbatim>\<open>HTTPStatusError\<close>, a body that is not JSON raises
  \<^verbatim>\<open>JSONDecodeError\<close>.
\<close>

definition is_success :: "int \<Rightarrow> bool" where
  "is_success code = (200 \<le> code \<and> code \<le> 299)"

definition response_json :: "http_outcome \<Rightarrow> error + pyval" where
  "response_json outcome =
     (case outcome of
        TransportError msg \<Rightarrow> Inl (RequestError msg)
      | Response code body_text body \<Rightarrow>
          if \<not> is_success code then Inl (HTTPStatusError code body_text)
          else (case body of
                  None \<Rightarrow> Inl (JSONDecodeError ''Expecting value'')
                | Some data \<Rightarrow> Inr data))"

text \<open>
  The body of \<^verbatim>\<open>_make_request\<close>, without its decorator. The two \<^verbatim>\<open>except\<close> clauses
  turn the httpx exceptions into \<^verbatim>\<open>DexScreenerAPIError\<close>; any other exception passes.
\<close>

definition make_request_body ::
  "DexScreenerClient \<Rightarrow> env \<Rightarrow> string \<Rightarrow> (string \<times> string) list \<Rightarrow>
   (error + pyval) \<times> DexScreenerClient \<times> env" where
  "make_request_body c e endpoint params =
     (let cache_key = get_cache_key endpoint params in
      case get_cached_data c (clock e) cache_key of
        (Inl err, c1) \<Rightarrow> (Inl err, c1, e)
      | (Inr cached_data, c1) \<Rightarrow>
          if cached_data \<noteq> PyNone then (Inr cached_data, c1, e)
          else
            (let c2 = c1\<lparr>permits_taken := Suc (permits_taken c1)\<rparr>;
                 url = BASE_URL @ ''/'' @ lstrip_slash endpoint in
             case client_get e url params of
               (outcome, e1) \<Rightarrow>
                 (case response_json outcome of
                    Inr data \<Rightarrow> (Inr data, cache_data c2 (clock e1) cache_key data, e1)
                  | Inl (HTTPStatusError code body_text) \<Rightarrow>
                      (Inl (DexScreenerAPIError
                              (''HTTP '' @ str_int code @ '': '' @ body_text) (Some code)),
                       c2, e1)
                  | Inl (RequestError msg) \<Rightarrow>
                      (Inl (DexScreenerAPIError (''Request failed: '' @ msg) None), c2, e1)
                  | Inl err \<Rightarrow> (Inl err, c2, e1))))"

text \<open>
  The decorator (package tenacity):
  \<^verbatim>\<open>@retry(retry=retry_if_exception_type((httpx.RequestError, httpx.HTTPStatusError)),
         stop=stop_after_attempt(3), wait=wait_exponential(multiplier=1, min=1, max=10))\<close>.
  Each attempt runs the whole body again. An exception the predicate rejects is raised
  again as it is; after the last attempt a retried exception becomes \<^verbatim>\<open>RetryError\<close>;
  otherwise the caller sleeps and the next attempt starts.
\<close>

definition retry_if_exception_type :: "error \<Rightarrow> bool" where
  "retry_if_exception_type err =
     (case err of HTTPStatusError _ _ \<Rightarrow> True | RequestError _ \<Rightarrow> True | _ \<Rightarrow> False)"

definition stop_after_attempt :: "nat \<Rightarrow> bool" where
  "stop_after_attempt attempt_number = (3 \<le> attempt_number)"

definition wait_exponential :: "nat \<Rightarrow> int" where
  "wait_exponential attempt_number = max 1 (min (2 ^ (attempt_number - 1)) 10)"

function retrying ::
  "nat \<Rightarrow> DexScreenerClient \<Rightarrow> env \<Rightarrow> string \<Rightarrow> (string \<times> string) list \<Rightarrow>
   (error + pyval) \<times> DexScreenerClient \<times> env" where
  "retrying attempt_number c e endpoint params =
     (case make_request_body c e endpoint params of
        (Inr data, c1, e1) \<Rightarrow> (Inr data, c1, e1)
      | (Inl err, c1, e1) \<Rightarrow>
          if \<not> retry_if_exception_type err then (Inl err, c1, e1)
          else if stop_after_attempt attempt_number then (Inl (RetryError err), c1, e1)
          else retrying (Suc attempt_number) c1
                 (sleep (wait_exponential attempt_number) e1) endpoint params)"
  by pat_completeness auto
termination
  by (relation "measure (\<lambda>(attempt_number, _). 3 - attempt_number)")
     (auto simp: stop_after_attempt_def)

declare retrying.simps [simp del]

definition make_request ::
  "DexScreenerClient \<Rightarrow> env \<Rightarrow> string \<Rightarrow> (string \<times> string) list \<Rightarrow>
   (error + pyval) \<times> DexScreenerClient \<times> env" where
  "make_request c e endpoint params = retrying 1 c e endpoint params"

section \<open>The typed operations of the client\<close>

text \<open>
  The models of \<^verbatim>\<open>types.py\<close> are pydantic classes; what pydantic accepts is a
  parameter of the client operations, one validator for each model the client builds.
  A validator takes the keyword arguments of \<^verbatim>\<open>Model(**data)\<close> and answers \<open>Inl msg\<close> for
  a \<^verbatim>\<open>ValidationError\<close> whose \<^verbatim>\<open>str\<close> is \<open>msg\<close>, or \<open>Inr m\<close> for the model, which is
  given by its \<^verbatim>\<open>.dict()\<close> view (the only use the server makes of a model).
\<close>

record validators =
  TokenResponse :: "(string \<times> pyval) list \<Rightarrow> string + pyval"
  PairResponse :: "(string \<times> pyval) list \<Rightarrow> string + pyval"
  SearchResult :: "(string \<times> pyval) list \<Rightarrow> string + pyval"
  TrendingResponse :: "(string \<times> pyval) list \<Rightarrow> string + pyval"
  PairInfo :: "(string \<times> pyval) list \<Rightarrow> string + pyval"

text \<open>
  \<^verbatim>\<open>Model(**data)\<close>: Python itself raises \<^verbatim>\<open>TypeError\<close> when \<^verbatim>\<open>data\<close> is not a mapping;
  otherwise pydantic validates.
\<close>

definition construct ::
  "string \<Rightarrow> ((string \<times> pyval) list \<Rightarrow> string + pyval) \<Rightarrow> pyval \<Rightarrow> error + pyval" where
  "construct cls validate data =
     (case data of
        PyDict kwargs \<Rightarrow>
          (case validate kwargs of
             Inl msg \<Rightarrow> Inl (ValidationError msg)
           | Inr model \<Rightarrow> Inr model)
      | _ \<Rightarrow> Inl (TypeError (cls @ ''() argument after ** must be a mapping, not '' @
                              type_name data)))"

text \<open>The clause \<^verbatim>\<open>except ValidationError as e\<close> that closes every operation.\<close>

definition except_ValidationError :: "error + 'a \<Rightarrow> error + 'a" where
  "except_ValidationError r =
     (case r of
        Inl (ValidationError msg) \<Rightarrow>
          Inl (DexScreenerAPIError (''Invalid response format: '' @ msg) None)
      | _ \<Rightarrow> r)"

definition get_token_info ::
  "validators \<Rightarrow> DexScreenerClient \<Rightarrow> env \<Rightarrow> string \<Rightarrow>
   (error + pyval) \<times> DexScreenerClient \<times> env" where
  "get_token_info V c e token_address =
     (case make_request c e (''tokens/'' @ token_address) [] of
        (Inl err, c1, e1) \<Rightarrow> (except_ValidationError (Inl err), c1, e1)
      | (Inr data, c1, e1) \<Rightarrow>
          (except_ValidationError
             (construct ''dexscreener_mcp.types.TokenResponse'' (TokenResponse V) data),
           c1, e1))"

definition get_pair_info ::
  "validators \<Rightarrow> DexScreenerClient \<Rightarrow> env \<Rightarrow> string \<Rightarrow> string \<Rightarrow>
   (error + pyval) \<times> DexScreenerClient \<times> env" where
  "get_pair_info V c e chain_id pair_address =
     (case make_request c e (''pairs/'' @ chain_id @ ''/'' @ pair_address) [] of
        (Inl err, c1, e1) \<Rightarrow> (except_ValidationError (Inl err), c1, e1)
      | (Inr data, c1, e1) \<Rightarrow>
          (except_ValidationError
             (construct ''dexscreener_mcp.types.PairResponse'' (PairResponse V) data),
           c1, e1))"

text \<open>
  The dictionary \<^verbatim>\<open>params\<close> of \<^verbatim>\<open>search\<close>: \<^verbatim>\<open>{"q": query}\<close>, with
  \<^verbatim>\<open>params["limit"] = str(limit)\<close> added when a limit is given.
\<close>

definition search_params :: "string \<Rightarrow> int option \<Rightarrow> (string \<times> string) list" where
  "search_params query limit =
     [(''q'', query)] @ (case limit of None \<Rightarrow> [] | Some n \<Rightarrow> [(''limit'', str_int n)])"

definition search ::
  "validators \<Rightarrow> DexScreenerClient \<Rightarrow> env \<Rightarrow> string \<Rightarrow> int option \<Rightarrow>
   (error + pyval) \<times> DexScreenerClient \<times> env" where
  "search V c e query limit =
     (let params = search_params query limit in
      case make_request c e ''search'' params of
        (Inl err, c1, e1) \<Rightarrow> (except_ValidationError (Inl err), c1, e1)
      | (Inr data, c1, e1) \<Rightarrow>
          (except_ValidationError
             (construct ''dexscreener_mcp.types.SearchResult'' (SearchResult V) data),
           c1, e1))"

text \<open>\<^verbatim>\<open>endpoint = chain_id if chain_id else "tokens"\<close>\<close>

definition trending_endpoint :: "string option \<Rightarrow> string" where
  "trending_endpoint chain_id =
     (case chain_id of
        None \<Rightarrow> ''tokens''
      | Some chain \<Rightarrow> if chain \<noteq> [] then chain else ''tokens'')"

definition get_trending_pairs ::
  "validators \<Rightarrow> DexScreenerClient \<Rightarrow> env \<Rightarrow> string option \<Rightarrow>
   (error + pyval) \<times> DexScreenerClient \<times> env" where
  "get_trending_pairs V c e chain_id =
     (let endpoint = trending_endpoint chain_id in
      case make_request c e endpoint [] of
        (Inl err, c1, e1) \<Rightarrow> (except_ValidationError (Inl err), c1, e1)
      | (Inr data, c1, e1) \<Rightarrow>
          (except_ValidationError
             (construct ''dexscreener_mcp.types.TrendingResponse'' (TrendingResponse V) data),
           c1, e1))"

text \<open>
  \<^verbatim>\<open>data.get("pairs", [])\<close> needs a dictionary; the comprehension
  \<^verbatim>\<open>[PairInfo(**pair) for pair in pairs_data]\<close> iterates whatever it got (a list, the keys
  of a dictionary, the characters of a string) and stops at the first exception.
\<close>

definition get_pairs_default :: "pyval \<Rightarrow> error + pyval" where
  "get_pairs_default data =
     (case data of
        PyDict items \<Rightarrow>
          (case map_of items ''pairs'' of None \<Rightarrow> Inr (PyList []) | Some v \<Rightarrow> Inr v)
      | _ \<Rightarrow> Inl (AttributeError
                   (quoted (type_name data) @ '' object has no attribute '' @
                    quoted ''get'')))"

definition iterate :: "pyval \<Rightarrow> error + pyval list" where
  "iterate v =
     (case v of
        PyList xs \<Rightarrow> Inr xs
      | PyDict items \<Rightarrow> Inr (map (\<lambda>(k, _). PyStr k) items)
      | PyStr s \<Rightarrow> Inr (map (\<lambda>ch. PyStr [ch]) s)
      | _ \<Rightarrow> Inl (TypeError (quoted (type_name v) @ '' object is not iterable'')))"

fun construct_each ::
  "((string \<times> pyval) list \<Rightarrow> string + pyval) \<Rightarrow> pyval list \<Rightarrow> error + pyval list" where
  "construct_each validate [] = Inr []"
| "construct_each validate (pair # rest) =
     (case construct ''dexscreener_mcp.types.PairInfo'' validate pair of
        Inl err \<Rightarrow> Inl err
      | Inr model \<Rightarrow>
          (case construct_each validate rest of
             Inl err \<Rightarrow> Inl err
           | Inr models \<Rightarrow> Inr (model # models)))"

definition decode_pairs :: "validators \<Rightarrow> pyval \<Rightarrow> error + pyval list" where
  "decode_pairs V data =
     (case get_pairs_default data of
        Inl err \<Rightarrow> Inl err
      | Inr pairs_data \<Rightarrow>
          (case iterate pairs_data of
             Inl err \<Rightarrow> Inl err
           | Inr items \<Rightarrow> construct_each (PairInfo V) items))"

definition get_multiple_pairs ::
  "validators \<Rightarrow> DexScreenerClient \<Rightarrow> env \<Rightarrow> string list \<Rightarrow>
   (error + pyval list) \<times> DexScreenerClient \<times> env" where
  "get_multiple_pairs V c e pair_addresses =
     (if pair_addresses = [] then (Inr [], c, e)
      else
        (let addresses_param = join '','' pair_addresses in
         case make_request c e (''pairs/'' @ addresses_param) [] of
           (Inl err, c1, e1) \<Rightarrow> (except_ValidationError (Inl err), c1, e1)
         | (Inr data, c1, e1) \<Rightarrow> (except_ValidationError (decode_pairs V data), c1, e1)))"


section \<open>The server\<close>


























section \<open>Concrete sessions\<close>

text \<open>
  Validators, providers and requests used to run the model on concrete inputs: a validator
  set that accepts every dictionary, one that rejects every dictionary, a provider that
  always answers 200 with a body, one that answers 503 twice and 200 from then on, and one
  that always answers 404.
\<close>

definition accept_all :: validators where
  "accept_all =
     \<lparr>TokenResponse = (\<lambda>kwargs. Inr (PyDict kwargs)),
      PairResponse = (\<lambda>kwargs. Inr (PyDict kwargs)),
      SearchResult = (\<lambda>kwargs. Inr (PyDict kwargs)),
      TrendingResponse = (\<lambda>kwargs. Inr (PyDict kwargs)),
      PairInfo = (\<lambda>kwargs. Inr (PyDict kwargs))\<rparr>"

definition reject_all :: validators where
  "reject_all =
     \<lparr>TokenResponse = (\<lambda>kwargs. Inl ''field required''),
      PairResponse = (\<lambda>kwargs. Inl ''field required''),
      SearchResult = (\<lambda>kwargs. Inl ''field required''),
      TrendingResponse = (\<lambda>kwargs. Inl ''field required''),
      PairInfo = (\<lambda>kwargs. Inl ''field required'')\<rparr>"

definition answering ::
  "string \<Rightarrow> pyval \<Rightarrow> nat \<Rightarrow> string \<Rightarrow> (string \<times> string) list \<Rightarrow> int \<times> http_outcome" where
  "answering body_text data n url params = (0, Response 200 body_text (Some data))"

definition failing_twice ::
  "nat \<Rightarrow> string \<Rightarrow> (string \<times> string) list \<Rightarrow> int \<times> http_outcome" where
  "failing_twice n url params =
     (if n < 2 then (0, Response 503 ''Service Unavailable'' None)
      else (0, Response 200 ''{}'' (Some (PyDict []))))"

definition not_found ::
  "nat \<Rightarrow> string \<Rightarrow> (string \<times> string) list \<Rightarrow> int \<times> http_outcome" where
  "not_found n url params = (0, Response 404 ''Not Found'' None)"

definition start_env ::
  "(nat \<Rightarrow> string \<Rightarrow> (string \<times> string) list \<Rightarrow> int \<times> http_outcome) \<Rightarrow> env" where
  "start_env p = \<lparr>clock = 0, provider = p, requests_sent = 0\<rparr>"


definition empty_pairs :: pyval where
  "empty_pairs = PyDict [(''pairs'', PyList [])]"

text \<open>
  A client whose permits are all taken (300 of 300) and whose cache holds a payload for
  \<^verbatim>\<open>tokens/0xabc\<close>, written at time 0.
\<close>

definition exhausted_client :: DexScreenerClient where
  "exhausted_client =
     cache_data (default_client\<lparr>permits_taken := 300\<rparr>) 0 ''tokens/0xabc'' empty_pairs"

text \<open>
  A first request by a fresh default client to a provider that answers 200 with the body
  \<^verbatim>\<open>null\<close>: the client and the environment after it.
\<close>

definition null_session :: "(error + pyval) \<times> DexScreenerClient \<times> env" where
  "null_session =
     make_request default_client (start_env (answering ''null'' PyNone)) ''tokens/0xabc'' []"

definition null_cached_client :: DexScreenerClient where
  "null_cached_client = fst (snd null_session)"

definition null_cached_env :: env where
  "null_cached_env = snd (snd null_session)"




text \<open>
  An environment whose provider answers every request with the empty JSON object, and a
  payload whose \<^verbatim>\<open>pairs\<close> list holds one empty object.
\<close>

definition empty_body :: env where
  "empty_body = start_env (answering ''{}'' (PyDict []))"

definition one_bad_pair :: pyval where
  "one_bad_pair = PyDict [(''pairs'', PyList [PyDict []])]"

section \<open>The cache\<close>

lemma cache_data_keys:
  "dom (cache c) = dom (cache_timestamps c) \<Longrightarrow>
   dom (cache (cache_data c now k v)) = dom (cache_timestamps (cache_data c now k v))"
  by (simp add: cache_data_def)

lemma get_cached_data_keys:
  assumes "dom (cache c) = dom (cache_timestamps c)"
  shows "dom (cache (snd (get_cached_data c now k))) =
         dom (cache_timestamps (snd (get_cached_data c now k)))"
proof (cases "is_cache_valid c now k")
  case True
  then show ?thesis
    using assms by (simp add: get_cached_data_def split: option.splits)
next
  case False
  show ?thesis
  proof (cases "cache c k")
    case None
    with False assms show ?thesis by (simp add: get_cached_data_def)
  next
    case (Some v)
    then have "k \<in> dom (cache_timestamps c)" using assms by auto
    then obtain t where "cache_timestamps c k = Some t" by auto
    with False Some assms show ?thesis
      by (simp add: get_cached_data_def Let_def)
  qed
qed

lemma run_op_keys:
  "dom (cache c) = dom (cache_timestamps c) \<Longrightarrow>
   dom (cache (run_op c op)) = dom (cache_timestamps (run_op c op))"
proof (cases op)
  case (Pair now o1)
  assume inv: "dom (cache c) = dom (cache_timestamps c)"
  show ?thesis
  proof (cases o1)
    case (Cache_data k v)
    with Pair inv show ?thesis by (simp add: cache_data_keys)
  next
    case (Get_cached_data k)
    with Pair inv show ?thesis by (simp add: get_cached_data_keys)
  qed
qed

lemma foldl_run_op_keys:
  "dom (cache c) = dom (cache_timestamps c) \<Longrightarrow>
   dom (cache (foldl run_op c ops)) = dom (cache_timestamps (foldl run_op c ops))"
  by (induction ops arbitrary: c) (simp_all add: run_op_keys)

text \<open>
  C9. Starting from a freshly constructed client (\<^verbatim>\<open>__init__\<close>: both dictionaries
  empty), after any sequence of \<^verbatim>\<open>_cache_data\<close> and \<^verbatim>\<open>_get_cached_data\<close> calls, at any
  clock readings, the two dictionaries \<^verbatim>\<open>_cache\<close> and \<^verbatim>\<open>_cache_timestamps\<close> have the
  same key set.
\<close>

theorem cache_key_sets_equal:
  "dom (cache (run_ops (init_client rl ttl tmo retries) ops)) =
   dom (cache_timestamps (run_ops (init_client rl ttl tmo retries) ops))"
  unfolding run_ops_def
  by (rule foldl_run_op_keys) (simp add: init_client_def)

text \<open>
  C5. Cache round trip: with a positive TTL, \<^verbatim>\<open>_cache_data(k, v)\<close> followed at once (same
  clock reading) by \<^verbatim>\<open>_get_cached_data(k)\<close> returns \<open>v\<close> and leaves the cache as it is.
  For a key whose entry has age at least the TTL, \<^verbatim>\<open>_get_cached_data\<close> returns \<^verbatim>\<open>None\<close>
  and removes the entry and its timestamp. For a key never seen it returns \<^verbatim>\<open>None\<close> too,
  and changes nothing.
\<close>

theorem cache_round_trip:
  "(0 < cache_ttl c \<longrightarrow>
      get_cached_data (cache_data c now k v) now k = (Inr v, cache_data c now k v)) \<and>
   (cache c k = Some v \<and> cache_timestamps c k = Some t \<and>
    timedelta_seconds (cache_ttl c) \<le> now - t \<longrightarrow>
      get_cached_data c now k =
        (Inr PyNone, c\<lparr>cache := (cache c)(k := None),
                       cache_timestamps := (cache_timestamps c)(k := None)\<rparr>)) \<and>
   (cache c k = None \<and> cache_timestamps c k = None \<longrightarrow>
      get_cached_data c now k = (Inr PyNone, c))"
  by (simp add: get_cached_data_def is_cache_valid_def cache_data_def timedelta_seconds_def Let_def)

theorem cache_round_trip_witness:
  "get_cached_data (cache_data default_client 0 ''k'' (PyStr ''v'')) 0 ''k'' =
     (Inr (PyStr ''v''), cache_data default_client 0 ''k'' (PyStr ''v'')) \<and>
   get_cached_data (cache_data default_client 0 ''k'' (PyStr ''v'')) 60000000 ''k'' =
     (Inr PyNone, default_client) \<and>
   get_cached_data default_client 5 ''k'' = (Inr PyNone, default_client)"
proof -
  have ttl: "0 < cache_ttl default_client"
    by (simp add: default_client_def init_client_def)
  have old: "cache (cache_data default_client 0 ''k'' (PyStr ''v'')) ''k'' = Some (PyStr ''v'') \<and>
     cache_timestamps (cache_data default_client 0 ''k'' (PyStr ''v'')) ''k'' = Some 0 \<and>
     timedelta_seconds (cache_ttl (cache_data default_client 0 ''k'' (PyStr ''v''))) \<le> 60000000 - 0"
    by (simp add: cache_data_def default_client_def init_client_def timedelta_seconds_def)
  have unseen: "cache default_client ''k'' = None \<and> cache_timestamps default_client ''k'' = None"
    by (simp add: default_client_def init_client_def)
  have restored: "(cache_data default_client 0 ''k'' (PyStr ''v''))
       \<lparr>cache := (cache (cache_data default_client 0 ''k'' (PyStr ''v'')))(''k'' := None),
        cache_timestamps :=
          (cache_timestamps (cache_data default_client 0 ''k'' (PyStr ''v'')))(''k'' := None)\<rparr> =
     default_client"
    by (simp add: cache_data_def default_client_def init_client_def)
  show ?thesis
    using cache_round_trip [where c = default_client and now = 0 and k = "''k''"
          and v = "PyStr ''v''"] ttl
      cache_round_trip [where c = "cache_data default_client 0 ''k'' (PyStr ''v'')"
          and now = 60000000 and k = "''k''" and v = "PyStr ''v''" and t = 0]
      old restored
      cache_round_trip [where c = default_client and now = 5 and k = "''k''"] unseen
    by simp
qed

section \<open>Cache keys\<close>

text \<open>The two keys that the repository's test \<^verbatim>\<open>test_cache_key_generation\<close> expects.\<close>

lemma test_cache_key_generation:
  "get_cache_key ''/tokens/0x123'' [] = ''/tokens/0x123''"
  "get_cache_key ''/search'' [(''q'', ''usdc''), (''limit'', ''10'')] = ''/search?limit=10&q=usdc''"
  by (simp_all add: get_cache_key_def)

section \<open>The request pipeline never retries\<close>

lemma get_cached_data_error:
  "get_cached_data c now k = (Inl err, c') \<Longrightarrow> err = KeyError k"
  by (auto simp: get_cached_data_def Let_def split: if_splits option.splits)

lemma response_json_error:
  "response_json outcome = Inl err \<Longrightarrow>
     (\<exists>msg. outcome = TransportError msg \<and> err = RequestError msg) \<or>
     (\<exists>code body_text body. outcome = Response code body_text body \<and> \<not> is_success code \<and>
        err = HTTPStatusError code body_text) \<or>
     (\<exists>code body_text. outcome = Response code body_text None \<and> is_success code \<and>
        err = JSONDecodeError ''Expecting value'')"
  by (auto simp: response_json_def split: http_outcome.splits if_splits option.splits)

text \<open>
  Every exception that leaves the body of \<^verbatim>\<open>_make_request\<close> is one of four: the
  \<^verbatim>\<open>KeyError\<close> of an inconsistent cache, the \<^verbatim>\<open>JSONDecodeError\<close> of a body that is not
  JSON, or a \<^verbatim>\<open>DexScreenerAPIError\<close> made from an HTTP status or from a transport failure.
\<close>

lemma make_request_body_error:
  assumes "make_request_body c e endpoint params = (Inl err, c', e')"
  shows "err = KeyError (get_cache_key endpoint params) \<or>
         err = JSONDecodeError ''Expecting value'' \<or>
         (\<exists>code body_text. err = DexScreenerAPIError
                                  (''HTTP '' @ str_int code @ '': '' @ body_text) (Some code)) \<or>
         (\<exists>msg. err = DexScreenerAPIError (''Request failed: '' @ msg) None)"
proof (cases "get_cached_data c (clock e) (get_cache_key endpoint params)")
  case (Pair r c1)
  show ?thesis
  proof (cases r)
    case (Inl err1)
    with Pair assms have "err = err1" by (simp add: make_request_body_def)
    moreover from Pair Inl have "err1 = KeyError (get_cache_key endpoint params)"
      using get_cached_data_error by blast
    ultimately show ?thesis by simp
  next
    case (Inr cached_data)
    show ?thesis
    proof (cases "cached_data = PyNone")
      case False
      with Pair Inr assms show ?thesis by (simp add: make_request_body_def)
    next
      case True
      obtain outcome e1 where
        cg: "client_get e (BASE_URL @ ''/'' @ lstrip_slash endpoint) params = (outcome, e1)"
        by (cases "client_get e (BASE_URL @ ''/'' @ lstrip_slash endpoint) params")
      show ?thesis
      proof (cases "response_json outcome")
        case (Inr data)
        with Pair \<open>r = Inr cached_data\<close> True cg assms show ?thesis
          by (simp add: make_request_body_def Let_def)
      next
        case (Inl err2)
        from response_json_error [OF Inl] show ?thesis
          using Pair \<open>r = Inr cached_data\<close> True cg assms Inl
          by (auto simp: make_request_body_def Let_def)
      qed
    qed
  qed
qed

lemma make_request_body_not_retried:
  "make_request_body c e endpoint params = (Inl err, c', e') \<Longrightarrow>
   \<not> retry_if_exception_type err"
  by (drule make_request_body_error) (auto simp: retry_if_exception_type_def)

lemma retrying_eq_body:
  "retrying n c e endpoint params = make_request_body c e endpoint params"
proof (cases "make_request_body c e endpoint params")
  case (fields r c1 e1)
  show ?thesis
  proof (cases r)
    case (Inr data)
    with fields show ?thesis by (simp add: retrying.simps)
  next
    case (Inl err)
    with fields have "\<not> retry_if_exception_type err"
      using make_request_body_not_retried by blast
    with fields Inl show ?thesis by (simp add: retrying.simps)
  qed
qed

text \<open>
  The decorated \<^verbatim>\<open>_make_request\<close> is its body run once: the exceptions the decorator
  would retry are caught and replaced inside the body, so the decorator never sees them.
\<close>

lemma make_request_eq_body:
  "make_request c e endpoint params = make_request_body c e endpoint params"
  unfolding make_request_def by (rule retrying_eq_body)

text \<open>
  C1. The claim: a fetch that misses the cache is attempted up to three times, and one
  whose first two attempts fail with an HTTP-status error and whose third succeeds returns
  the payload. Run on a fresh default client against a provider that answers 503 to the
  first two requests and 200 from the third on, \<^verbatim>\<open>_make_request\<close> raises
  \<^verbatim>\<open>DexScreenerAPIError\<close> after a single request and a single permit: the 503 is turned
  into \<^verbatim>\<open>DexScreenerAPIError\<close> inside the decorated function, and the decorator retries
  only \<^verbatim>\<open>httpx.RequestError\<close> and \<^verbatim>\<open>httpx.HTTPStatusError\<close>. The third request
  would have been answered 200.
\<close>

theorem make_request_gives_up_after_first_failure:
  "fst (make_request default_client (start_env failing_twice) ''tokens/0xabc'' []) =
     Inl (DexScreenerAPIError ''HTTP 503: Service Unavailable'' (Some 503)) \<and>
   requests_sent (snd (snd (make_request default_client (start_env failing_twice)
     ''tokens/0xabc'' []))) = 1 \<and>
   permits_taken (fst (snd (make_request default_client (start_env failing_twice)
     ''tokens/0xabc'' []))) = 1 \<and>
   failing_twice 2 (BASE_URL @ ''/tokens/0xabc'') [] = (0, Response 200 ''{}'' (Some (PyDict [])))"
  by (simp add: make_request_eq_body make_request_body_def get_cache_key_def get_cached_data_def
      is_cache_valid_def default_client_def init_client_def start_env_def failing_twice_def
      client_get_def response_json_def is_success_def str_int_def str_nat.simps digit_char_def
      Let_def BASE_URL_def lstrip_slash_def)

section \<open>Cache hits\<close>

text \<open>
  C4, as amended. For a request whose cache key has an unexpired entry holding a payload
  other than \<^verbatim>\<open>None\<close>, \<^verbatim>\<open>_make_request\<close> returns that payload and leaves the client
  (the permits taken, the cache) and the environment (no request sent, no time spent
  waiting) exactly as they were, whatever the number of permits already taken.
\<close>

theorem cache_hit_bypasses_limiter:
  assumes "cache c (get_cache_key endpoint params) = Some data"
    and "data \<noteq> PyNone"
    and "cache_timestamps c (get_cache_key endpoint params) = Some t"
    and "clock e - t < timedelta_seconds (cache_ttl c)"
  shows "make_request c e endpoint params = (Inr data, c, e)"
  using assms
  by (simp add: make_request_eq_body make_request_body_def get_cached_data_def
      is_cache_valid_def Let_def)

theorem cache_hit_bypasses_limiter_witness:
  "int (permits_taken exhausted_client) = rate_limit exhausted_client \<and>
   make_request exhausted_client (start_env not_found) ''tokens/0xabc'' [] =
     (Inr empty_pairs, exhausted_client, start_env not_found)"
proof -
  have 1: "cache exhausted_client (get_cache_key ''tokens/0xabc'' []) = Some empty_pairs"
    by (simp add: exhausted_client_def cache_data_def get_cache_key_def)
  have 2: "empty_pairs \<noteq> PyNone" by (simp add: empty_pairs_def)
  have 3: "cache_timestamps exhausted_client (get_cache_key ''tokens/0xabc'' []) = Some 0"
    by (simp add: exhausted_client_def cache_data_def get_cache_key_def)
  have 4: "clock (start_env not_found) - 0 < timedelta_seconds (cache_ttl exhausted_client)"
    by (simp add: exhausted_client_def cache_data_def start_env_def timedelta_seconds_def
        default_client_def init_client_def)
  have 5: "int (permits_taken exhausted_client) = rate_limit exhausted_client"
    by (simp add: exhausted_client_def cache_data_def default_client_def init_client_def)
  from cache_hit_bypasses_limiter [OF 1 2 3 4] 5 show ?thesis by simp
qed

text \<open>
  C4 as stated fails for a cached \<^verbatim>\<open>None\<close>. After a first request that the provider
  answered with the JSON body \<^verbatim>\<open>null\<close>, the key has an unexpired entry
  (\<^verbatim>\<open>_is_cache_valid\<close> holds, the payload stored is \<^verbatim>\<open>None\<close>); the same request made
  again at once takes a second permit and sends a second GET, because
  \<^verbatim>\<open>if cached_data is not None\<close> reads the cached \<^verbatim>\<open>None\<close> as a miss.
\<close>

theorem cached_null_is_fetched_again:
  "is_cache_valid null_cached_client (clock null_cached_env)
     (get_cache_key ''tokens/0xabc'' []) \<and>
   cache null_cached_client (get_cache_key ''tokens/0xabc'' []) = Some PyNone \<and>
   permits_taken null_cached_client = 1 \<and>
   requests_sent null_cached_env = 1 \<and>
   permits_taken (fst (snd (make_request null_cached_client null_cached_env
      ''tokens/0xabc'' []))) = 2 \<and>
   requests_sent (snd (snd (make_request null_cached_client null_cached_env
      ''tokens/0xabc'' []))) = 2"
  by (simp add: null_cached_client_def null_cached_env_def null_session_def
      make_request_eq_body make_request_body_def
      get_cache_key_def get_cached_data_def cache_data_def
      is_cache_valid_def default_client_def init_client_def start_env_def answering_def
      client_get_def response_json_def is_success_def timedelta_seconds_def
      Let_def BASE_URL_def lstrip_slash_def)

section \<open>Running the model on a fresh client\<close>

lemma first_request:
  "make_request default_client (start_env (answering body_text data)) endpoint params =
     (Inr data,
      cache_data (default_client\<lparr>permits_taken := 1\<rparr>) 0 (get_cache_key endpoint params) data,
      (start_env (answering body_text data))\<lparr>requests_sent := 1\<rparr>)"
  by (simp add: make_request_eq_body make_request_body_def get_cached_data_def
      is_cache_valid_def default_client_def init_client_def start_env_def answering_def
      client_get_def response_json_def is_success_def Let_def)

lemma first_request_not_found:
  "make_request default_client (start_env not_found) endpoint params =
     (Inl (DexScreenerAPIError ''HTTP 404: Not Found'' (Some 404)),
      default_client\<lparr>permits_taken := 1\<rparr>,
      (start_env not_found)\<lparr>requests_sent := 1\<rparr>)"
  by (simp add: make_request_eq_body make_request_body_def get_cached_data_def
      is_cache_valid_def default_client_def init_client_def start_env_def not_found_def
      client_get_def response_json_def is_success_def Let_def str_int_def str_nat.simps
      digit_char_def)

lemma after_first_request:
  "make_request default_client (start_env (answering body_text data)) endpoint params =
     (Inr data, fst (snd (make_request default_client (start_env (answering body_text data))
                            endpoint params)),
      snd (snd (make_request default_client (start_env (answering body_text data))
                            endpoint params)))"
  by (simp add: first_request)




section \<open>The dispatcher\<close>






section \<open>Argument checks of the handlers\<close>







section \<open>Decoding the payload\<close>

text \<open>
  C7 as stated fails for a payload of the wrong type at the top: on the JSON array
  \<^verbatim>\<open>[]\<close>, \<^verbatim>\<open>TokenResponse(**data)\<close> raises \<^verbatim>\<open>TypeError\<close> before pydantic sees the
  payload; \<^verbatim>\<open>except ValidationError\<close> does not catch it, and \<^verbatim>\<open>get_token_info\<close> raises
  the \<^verbatim>\<open>TypeError\<close>, not the error it makes for a response of invalid format.
\<close>

theorem array_payload_is_type_error:
  "fst (get_token_info accept_all default_client (start_env (answering ''[]'' (PyList [])))
          ''0xabc'') =
     Inl (TypeError
       ''dexscreener_mcp.types.TokenResponse() argument after ** must be a mapping, not list'')"
  by (simp add: get_token_info_def first_request construct_def except_ValidationError_def)

text \<open>
  C7, as amended. In each of the five operations, a payload that is a JSON object and that
  pydantic rejects with a \<^verbatim>\<open>ValidationError\<close> (a required field missing, a field of the
  wrong type) is raised as \<^verbatim>\<open>DexScreenerAPIError("Invalid response format: ...")\<close> without
  a status code. The caller can tell it from every fetch or network error: no exception
  that \<^verbatim>\<open>_make_request\<close> raises is equal to it (those are \<^verbatim>\<open>DexScreenerAPIError\<close> with
  a message that starts "HTTP " or "Request failed: ", \<^verbatim>\<open>JSONDecodeError\<close> or
  \<^verbatim>\<open>KeyError\<close>).
\<close>

theorem decode_failure_is_distinct:
  "(make_request c e (''tokens/'' @ token_address) [] = (Inr (PyDict kwargs), c1, e1) \<and>
    TokenResponse V kwargs = Inl msg \<longrightarrow>
      get_token_info V c e token_address =
        (Inl (DexScreenerAPIError (''Invalid response format: '' @ msg) None), c1, e1)) \<and>
   (make_request c e (''pairs/'' @ chain_id @ ''/'' @ pair_address) [] =
      (Inr (PyDict kwargs), c1, e1) \<and>
    PairResponse V kwargs = Inl msg \<longrightarrow>
      get_pair_info V c e chain_id pair_address =
        (Inl (DexScreenerAPIError (''Invalid response format: '' @ msg) None), c1, e1)) \<and>
   (make_request c e ''search'' (search_params query limit) = (Inr (PyDict kwargs), c1, e1) \<and>
    SearchResult V kwargs = Inl msg \<longrightarrow>
      search V c e query limit =
        (Inl (DexScreenerAPIError (''Invalid response format: '' @ msg) None), c1, e1)) \<and>
   (make_request c e (trending_endpoint chain) [] = (Inr (PyDict kwargs), c1, e1) \<and>
    TrendingResponse V kwargs = Inl msg \<longrightarrow>
      get_trending_pairs V c e chain =
        (Inl (DexScreenerAPIError (''Invalid response format: '' @ msg) None), c1, e1)) \<and>
   (pair_addresses \<noteq> [] \<and>
    make_request c e (''pairs/'' @ join '','' pair_addresses) [] =
      (Inr (PyDict kwargs), c1, e1) \<and>
    map_of kwargs ''pairs'' = Some (PyList items) \<and>
    construct_each (PairInfo V) items = Inl (ValidationError msg) \<longrightarrow>
      get_multiple_pairs V c e pair_addresses =
        (Inl (DexScreenerAPIError (''Invalid response format: '' @ msg) None), c1, e1)) \<and>
   (make_request c e endpoint params = (Inl err, c1, e1) \<longrightarrow>
      err \<noteq> DexScreenerAPIError (''Invalid response format: '' @ msg) None)"
proof -
  have fetch: "err \<noteq> DexScreenerAPIError (''Invalid response format: '' @ msg) None"
    if "make_request c e endpoint params = (Inl err, c1, e1)"
    using make_request_body_error [of c e endpoint params err c1 e1] that
    by (auto simp: make_request_eq_body)
  show ?thesis
    using fetch
    by (simp add: get_token_info_def get_pair_info_def search_def get_trending_pairs_def
        get_multiple_pairs_def construct_def decode_pairs_def get_pairs_default_def
        iterate_def except_ValidationError_def Let_def)
qed

theorem decode_failure_is_distinct_witness:
  "fst (get_token_info reject_all default_client empty_body ''0xabc'') =
     Inl (DexScreenerAPIError ''Invalid response format: field required'' None) \<and>
   fst (get_pair_info reject_all default_client empty_body ''ethereum'' ''0xabc'') =
     Inl (DexScreenerAPIError ''Invalid response format: field required'' None) \<and>
   fst (search reject_all default_client empty_body ''usdc'' None) =
     Inl (DexScreenerAPIError ''Invalid response format: field required'' None) \<and>
   fst (get_trending_pairs reject_all default_client empty_body None) =
     Inl (DexScreenerAPIError ''Invalid response format: field required'' None) \<and>
   fst (get_multiple_pairs reject_all default_client
          (start_env (answering ''{}'' one_bad_pair)) [''ethereum:0xabc'']) =
     Inl (DexScreenerAPIError ''Invalid response format: field required'' None) \<and>
   fst (make_request default_client (start_env not_found) ''tokens/0xabc'' []) =
     Inl (DexScreenerAPIError ''HTTP 404: Not Found'' (Some 404)) \<and>
   DexScreenerAPIError ''HTTP 404: Not Found'' (Some 404) \<noteq>
     DexScreenerAPIError ''Invalid response format: field required'' None"
proof -
  have v: "TokenResponse reject_all [] = Inl ''field required''"
    "PairResponse reject_all [] = Inl ''field required''"
    "SearchResult reject_all [] = Inl ''field required''"
    "TrendingResponse reject_all [] = Inl ''field required''"
    "construct_each (PairInfo reject_all) [PyDict []] = Inl (ValidationError ''field required'')"
    by (simp_all add: reject_all_def construct_def)
  have w1: "fst (get_token_info reject_all default_client empty_body ''0xabc'') =
     Inl (DexScreenerAPIError ''Invalid response format: field required'' None)"
    using decode_failure_is_distinct [where V = reject_all and c = default_client
        and e = empty_body and token_address = "''0xabc''" and kwargs = "[]"
        and msg = "''field required''"
        and ?c1.0 = "fst (snd (make_request default_client empty_body ''tokens/0xabc'' []))"
        and ?e1.0 = "snd (snd (make_request default_client empty_body ''tokens/0xabc'' []))"]
      after_first_request [of "''{}''" "PyDict []" "''tokens/0xabc''" "[]"] v
    by (simp add: empty_body_def)
  have w2: "fst (get_pair_info reject_all default_client empty_body ''ethereum'' ''0xabc'') =
     Inl (DexScreenerAPIError ''Invalid response format: field required'' None)"
    using decode_failure_is_distinct [where V = reject_all and c = default_client
        and e = empty_body and chain_id = "''ethereum''" and pair_address = "''0xabc''"
        and kwargs = "[]" and msg = "''field required''"
        and ?c1.0 = "fst (snd (make_request default_client empty_body
                                 ''pairs/ethereum/0xabc'' []))"
        and ?e1.0 = "snd (snd (make_request default_client empty_body
                                 ''pairs/ethereum/0xabc'' []))"]
      after_first_request [of "''{}''" "PyDict []" "''pairs/ethereum/0xabc''" "[]"] v
    by (simp add: empty_body_def)
  have w3: "fst (search reject_all default_client empty_body ''usdc'' None) =
     Inl (DexScreenerAPIError ''Invalid response format: field required'' None)"
    using decode_failure_is_distinct [where V = reject_all and c = default_client
        and e = empty_body and query = "''usdc''" and limit = None
        and kwargs = "[]" and msg = "''field required''"
        and ?c1.0 = "fst (snd (make_request default_client empty_body
                                 ''search'' (search_params ''usdc'' None)))"
        and ?e1.0 = "snd (snd (make_request default_client empty_body
                                 ''search'' (search_params ''usdc'' None)))"]
      after_first_request [of "''{}''" "PyDict []" "''search''" "search_params ''usdc'' None"] v
    by (simp add: empty_body_def)
  have w4: "fst (get_trending_pairs reject_all default_client empty_body None) =
     Inl (DexScreenerAPIError ''Invalid response format: field required'' None)"
    using decode_failure_is_distinct [where V = reject_all and c = default_client
        and e = empty_body and chain = None
        and kwargs = "[]" and msg = "''field required''"
        and ?c1.0 = "fst (snd (make_request default_client empty_body
                                 (trending_endpoint None) []))"
        and ?e1.0 = "snd (snd (make_request default_client empty_body
                                 (trending_endpoint None) []))"]
      after_first_request [of "''{}''" "PyDict []" "trending_endpoint None" "[]"] v
    by (simp add: empty_body_def)
  have w5: "fst (get_multiple_pairs reject_all default_client
          (start_env (answering ''{}'' one_bad_pair)) [''ethereum:0xabc'']) =
     Inl (DexScreenerAPIError ''Invalid response format: field required'' None)"
    using decode_failure_is_distinct [where V = reject_all and c = default_client
        and e = "start_env (answering ''{}'' one_bad_pair)"
        and pair_addresses = "[''ethereum:0xabc'']"
        and kwargs = "[(''pairs'', PyList [PyDict []])]" and items = "[PyDict []]"
        and msg = "''field required''"
        and ?c1.0 = "fst (snd (make_request default_client
               (start_env (answering ''{}'' one_bad_pair)) ''pairs/ethereum:0xabc'' []))"
        and ?e1.0 = "snd (snd (make_request default_client
               (start_env (answering ''{}'' one_bad_pair)) ''pairs/ethereum:0xabc'' []))"]
      after_first_request [of "''{}''" one_bad_pair "''pairs/ethereum:0xabc''" "[]"] v
    by (simp add: one_bad_pair_def)
  have w6: "DexScreenerAPIError ''HTTP 404: Not Found'' (Some 404) \<noteq>
     DexScreenerAPIError ''Invalid response format: field required'' None"
    using decode_failure_is_distinct [where c = default_client and e = "start_env not_found"
        and endpoint = "''tokens/0xabc''" and params = "[]" and msg = "''field required''"
        and err = "DexScreenerAPIError ''HTTP 404: Not Found'' (Some 404)"
        and ?c1.0 = "default_client\<lparr>permits_taken := 1\<rparr>"
        and ?e1.0 = "(start_env not_found)\<lparr>requests_sent := 1\<rparr>"]
      first_request_not_found [of "''tokens/0xabc''" "[]"]
    by simp
  show ?thesis
    using w1 w2 w3 w4 w5 w6 by (simp add: first_request_not_found)
qed

text \<open>
  C10 as stated fails for a payload that is valid JSON but not an object: on the JSON array
  \<^verbatim>\<open>[]\<close>, which has no key \<^verbatim>\<open>pairs\<close>, \<^verbatim>\<open>data.get\<close> raises \<^verbatim>\<open>AttributeError\<close>, which
  the operation does not catch.
\<close>

theorem array_payload_raises:
  "fst (get_multiple_pairs accept_all default_client (start_env (answering ''[]'' (PyList [])))
          [''ethereum:0xabc'']) =
     Inl (AttributeError (quoted ''list'' @ '' object has no attribute '' @ quoted ''get''))"
  by (simp add: get_multiple_pairs_def first_request decode_pairs_def get_pairs_default_def
      except_ValidationError_def)

text \<open>
  C10, as amended. For a non-empty list of addresses, when \<^verbatim>\<open>_make_request\<close> returns a
  JSON object that has no key \<^verbatim>\<open>pairs\<close>, the client's \<^verbatim>\<open>get_multiple_pairs\<close> returns the
  empty list, whatever the validators are: \<^verbatim>\<open>data.get("pairs", [])\<close> supplies the empty
  list and no model is built.
\<close>

theorem missing_pairs_key_gives_empty_list:
  assumes "pair_addresses \<noteq> []"
    and "make_request c e (''pairs/'' @ join '','' pair_addresses) [] =
           (Inr (PyDict items), c1, e1)"
    and "map_of items ''pairs'' = None"
  shows "get_multiple_pairs V c e pair_addresses = (Inr [], c1, e1)"
  using assms
  by (simp add: get_multiple_pairs_def decode_pairs_def get_pairs_default_def iterate_def
      except_ValidationError_def Let_def)

theorem missing_pairs_key_gives_empty_list_witness:
  "get_multiple_pairs reject_all default_client empty_body [''ethereum:0xabc'', ''bsc:0xdef''] =
     (Inr [],
      cache_data (default_client\<lparr>permits_taken := 1\<rparr>) 0
        ''pairs/ethereum:0xabc,bsc:0xdef'' (PyDict []),
      empty_body\<lparr>requests_sent := 1\<rparr>)"
proof -
  have 1: "[''ethereum:0xabc'', ''bsc:0xdef''] \<noteq> []" by simp
  have 2: "make_request default_client empty_body
      (''pairs/'' @ join '','' [''ethereum:0xabc'', ''bsc:0xdef'']) [] =
     (Inr (PyDict []),
      cache_data (default_client\<lparr>permits_taken := 1\<rparr>) 0
        ''pairs/ethereum:0xabc,bsc:0xdef'' (PyDict []),
      empty_body\<lparr>requests_sent := 1\<rparr>)"
    by (simp add: empty_body_def first_request get_cache_key_def)
  have 3: "map_of ([] :: (string \<times> pyval) list) ''pairs'' = None" by simp
  from missing_pairs_key_gives_empty_list [OF 1 2 3] show ?thesis .
qed

end
